theory Spec2Isabelle
  imports Main "HOL-Library.Multiset"
begin

section \<open>The live attendance session of src/http/index.ts\<close>

text \<open>
  The server keeps one module-level slot \<open>activeSession\<close> and one module-level list
  \<open>allWs\<close> of open sockets. The message handler of the \<open>/ws\<close> route and the
  \<open>POST /attendance/start\<close> route read and write them. The development below embeds
  both routes as functions on an explicit server state.

  What the repository does not contain is a parameter of the model, collected in the record
  \<open>env\<close>: what \<open>send\<close> does on a socket, what \<open>ClassModel.findById\<close> and
  \<open>AttendanceModel.insertMany\<close> answer, what \<open>jwt.verify\<close> answers and what the clock
  reads. Every theorem holds for every such environment unless it says otherwise.

  One invocation of a handler is taken as one step: the points at which the \<open>async\<close>
  handler awaits the store are not interleaved with other handlers.
\<close>

subsection \<open>types.ts\<close>

definition TEACHER :: string where
  "TEACHER = ''teacher''"

definition STUDENT :: string where
  "STUDENT = ''student''"

text \<open>\<open>Object.values(AttendanceStatus)\<close>\<close>

definition AttendanceStatus :: "string list" where
  "AttendanceStatus = [''present'', ''absent'']"

subsection \<open>A JavaScript object used as a dictionary\<close>

text \<open>
  \<open>attendance\<close> is declared \<open>Record<string, string>\<close> and created by the literal
  \<open>{}\<close>, so it inherits from \<open>Object.prototype\<close>. Its own properties are kept as an
  association list in creation order; keys and values are strings, as the declaration says.
\<close>

type_synonym js_object = "(string \<times> string) list"

text \<open>What a property read can give: nothing, an own string, or a member of the prototype.\<close>

datatype js_value = Undefined | Str string | Inherited

definition Object_prototype :: "string list" where
  "Object_prototype =
     [''constructor'', ''__defineGetter__'', ''__defineSetter__'', ''hasOwnProperty'',
      ''__lookupGetter__'', ''__lookupSetter__'', ''isPrototypeOf'', ''propertyIsEnumerable'',
      ''toString'', ''valueOf'', ''__proto__'', ''toLocaleString'']"

text \<open>\<open>obj[k]\<close>: the own property, else the one found on the prototype.\<close>

definition js_get :: "js_object \<Rightarrow> string \<Rightarrow> js_value" where
  "js_get obj k =
     (case map_of obj k of
        Some v \<Rightarrow> Str v
      | None \<Rightarrow> if k \<in> set Object_prototype then Inherited else Undefined)"

text \<open>An existing own property keeps its place; a new one is created last.\<close>

fun upsert :: "string \<Rightarrow> string \<Rightarrow> js_object \<Rightarrow> js_object" where
  "upsert k v [] = [(k, v)]"
| "upsert k v (p # ps) = (if fst p = k then (k, v) # ps else p # upsert k v ps)"

text \<open>
  \<open>obj[k] = v\<close> for a string \<open>v\<close>. The key \<open>__proto__\<close> reaches the setter of
  \<open>Object.prototype\<close>, which ignores a value that is not an object.
\<close>

definition js_set :: "js_object \<Rightarrow> string \<Rightarrow> string \<Rightarrow> js_object" where
  "js_set obj k v = (if k = ''__proto__'' then obj else upsert k v obj)"

text \<open>JavaScript truthiness: the empty string and \<open>undefined\<close> are falsy.\<close>

fun truthy :: "js_value \<Rightarrow> bool" where
  "truthy Undefined = False"
| "truthy (Str s) = (s \<noteq> [])"
| "truthy Inherited = True"

text \<open>\<open>a || b\<close>\<close>

definition js_or :: "js_value \<Rightarrow> js_value \<Rightarrow> js_value" where
  "js_or a b = (if truthy a then a else b)"

text \<open>
  \<open>Object.entries\<close> and \<open>Object.values\<close> list the keys that are array indices first,
  in ascending numeric order, and then the other keys in creation order. An array index is
  the canonical decimal form of a number up to \<open>2^32 - 2\<close>.
\<close>

definition str_val :: "string \<Rightarrow> nat" where
  "str_val s = foldl (\<lambda>n c. 10 * n + (of_char c - 48)) 0 s"

definition is_array_index :: "string \<Rightarrow> bool" where
  "is_array_index s =
     (if s = [] then False
      else if s = ''0'' then True
      else list_all (\<lambda>c. c \<in> set ''0123456789'') s \<and> hd s \<noteq> CHR ''0''
           \<and> str_val s \<le> 4294967294)"

definition js_entries :: "js_object \<Rightarrow> (string \<times> string) list" where
  "js_entries obj =
     sort_key (\<lambda>kv. str_val (fst kv)) (filter (\<lambda>kv. is_array_index (fst kv)) obj)
     @ filter (\<lambda>kv. \<not> is_array_index (fst kv)) obj"

definition js_values :: "js_object \<Rightarrow> string list" where
  "js_values obj = map snd (js_entries obj)"

text \<open>
  A user id is the \<open>toString()\<close> of a MongoDB ObjectId (\<open>user._id.toString()\<close> at login,
  \<open>studentId.toString()\<close> at DONE): 24 lower-case hexadecimal digits.
\<close>

definition is_object_id :: "string \<Rightarrow> bool" where
  "is_object_id s = (length s = 24 \<and> list_all (\<lambda>c. c \<in> set ''0123456789abcdef'') s)"

subsection \<open>Server state\<close>

text \<open>\<open>activeSession\<close>, when it is not \<open>null\<close>.\<close>

record session =
  classId :: string
  startedAt :: string
  attendance :: js_object

text \<open>A socket object (its identity) with the \<open>ws.user\<close> bound at the handshake.\<close>

record websocket =
  sock :: nat
  userId :: string
  role :: string

text \<open>A document of the \<open>Attendances\<close> collection, as built at DONE.\<close>

record attendance_doc =
  doc_classId :: string
  doc_studentId :: string
  doc_status :: string

text \<open>
  model.ts, \<open>attendanceSchema\<close>: the path \<open>status\<close> carries
  \<open>enum: Object.values(AttendanceStatus)\<close>.
\<close>

definition schema_accepts :: "attendance_doc \<Rightarrow> bool" where
  "schema_accepts doc = (doc_status doc \<in> set AttendanceStatus)"

text \<open>A document of the \<open>Classes\<close> collection, ids already rendered by \<open>toString()\<close>.\<close>

record class_doc =
  class_id :: string
  teacherId :: "string option"
  studentIds :: "string list"

text \<open>The objects the server serialises and sends.\<close>

datatype out_message =
    ErrorMsg string
  | AttendanceMarkedMsg string string
  | TodaySummaryMsg nat nat nat
  | MyAttendanceMsg js_value
  | DoneMsg string nat nat nat

text \<open>A frame is the serialised form of one such object.\<close>

datatype frame = Json out_message

definition JSON_stringify :: "out_message \<Rightarrow> frame" where
  "JSON_stringify m = Json m"

text \<open>
  The state: the two module variables, the \<open>Attendances\<close> collection, and the frames that
  sockets have accepted so far (oldest first), each with the socket that took it.
\<close>

record server =
  activeSession :: "session option"
  allWs :: "websocket list"
  Attendances :: "attendance_doc list"
  delivered :: "(nat \<times> frame) list"

subsection \<open>The environment\<close>

text \<open>
  A \<open>send\<close> either hands the frame to the peer, loses it without telling the caller, or
  raises. An awaited store call either resolves or rejects; a rejected \<open>insertMany\<close>
  may have written some documents before it failed.
\<close>

datatype send_outcome = Delivered | Dropped | Throws

datatype 'a awaited = Rejected | Resolved 'a

datatype insert_outcome = Inserted | InsertFailed "attendance_doc list"

record env =
  send :: "nat \<Rightarrow> send_outcome"
  findById :: "string \<Rightarrow> class_doc option awaited"
  insertMany :: "attendance_doc list \<Rightarrow> insert_outcome"
  jwt_verify :: "string \<Rightarrow> (string \<times> string) option"
  now :: string


text \<open>
  An exception that leaves a handler. It ends that invocation of the handler and nothing
  else: what the runtime does with the rejected promise is not part of the model.
\<close>

datatype exn = TypeError | SendError nat | StoreError

type_synonym outcome = "exn option \<times> server"

subsection \<open>Helper functions for WebSocket\<close>

definition ws_send :: "env \<Rightarrow> websocket \<Rightarrow> frame \<Rightarrow> server \<Rightarrow> outcome" where
  "ws_send e ws payload sv =
     (case send e (sock ws) of
        Delivered \<Rightarrow> (None, sv\<lparr>delivered := delivered sv @ [(sock ws, payload)]\<rparr>)
      | Dropped \<Rightarrow> (None, sv)
      | Throws \<Rightarrow> (Some (SendError (sock ws)), sv))"

text \<open>\<open>allWs.forEach((w) => w.send(payload))\<close>: an exception ends the iteration.\<close>

fun forEach_send :: "env \<Rightarrow> frame \<Rightarrow> websocket list \<Rightarrow> server \<Rightarrow> outcome" where
  "forEach_send e payload [] sv = (None, sv)"
| "forEach_send e payload (w # ws) sv =
     (case ws_send e w payload sv of
        (None, sv') \<Rightarrow> forEach_send e payload ws sv'
      | (Some x, sv') \<Rightarrow> (Some x, sv'))"

definition broadcast :: "env \<Rightarrow> out_message \<Rightarrow> server \<Rightarrow> outcome" where
  "broadcast e message sv =
     (let payload = JSON_stringify message in forEach_send e payload (allWs sv) sv)"

definition sendError :: "env \<Rightarrow> websocket \<Rightarrow> string \<Rightarrow> server \<Rightarrow> outcome" where
  "sendError e ws message sv = ws_send e ws (JSON_stringify (ErrorMsg message)) sv"

subsection \<open>Inbound messages\<close>

text \<open>
  The result of \<open>JSON.parse(msg.toString())\<close>, as far as the handler looks at it:
  a syntax error; the value \<open>null\<close>, on which \<open>message.event\<close> raises; or a value
  whose \<open>event\<close> is a string or not (\<open>None\<close>: no such property, or not a string,
  so no \<open>case\<close> of the \<open>switch\<close> matches) and whose \<open>data\<close> either cannot be
  destructured (\<open>None\<close>: \<open>undefined\<close> or \<open>null\<close>) or holds string members
  \<open>studentId\<close> and \<open>status\<close>.
\<close>

record mark_data =
  studentId :: string
  status :: string

datatype message = ParseFailure | JsonNull | Envelope (event: "string option") (data: "mark_data option")

subsection \<open>The cases of the switch\<close>

text \<open>The counting done under TODAY\_SUMMARY and again under DONE.\<close>

definition summarize :: "js_object \<Rightarrow> nat \<times> nat \<times> nat" where
  "summarize att =
     (let attendanceValues = js_values att;
          present = length (filter (\<lambda>s. s = ''present'') attendanceValues);
          absent = length (filter (\<lambda>s. s = ''absent'') attendanceValues);
          total' = length attendanceValues
      in (present, absent, total'))"

definition on_ATTENDANCE_MARKED :: "env \<Rightarrow> websocket \<Rightarrow> mark_data option \<Rightarrow> server \<Rightarrow> outcome" where
  "on_ATTENDANCE_MARKED e ws d sv =
     (if role ws \<noteq> TEACHER then sendError e ws ''Forbidden, teacher event only'' sv
      else case activeSession sv of
        None \<Rightarrow> sendError e ws ''No active attendance session'' sv
      | Some s \<Rightarrow>
          (case d of
             None \<Rightarrow> (Some TypeError, sv)
           | Some md \<Rightarrow>
               broadcast e (AttendanceMarkedMsg (studentId md) (status md))
                 (sv\<lparr>activeSession :=
                      Some (s\<lparr>attendance := js_set (attendance s) (studentId md) (status md)\<rparr>)\<rparr>)))"

definition on_TODAY_SUMMARY :: "env \<Rightarrow> websocket \<Rightarrow> server \<Rightarrow> outcome" where
  "on_TODAY_SUMMARY e ws sv =
     (if role ws \<noteq> TEACHER then sendError e ws ''Forbidden, teacher event only'' sv
      else case activeSession sv of
        None \<Rightarrow> sendError e ws ''No active attendance session'' sv
      | Some s \<Rightarrow>
          (case summarize (attendance s) of
             (present, absent, total') \<Rightarrow> broadcast e (TodaySummaryMsg present absent total') sv))"

definition on_MY_ATTENDANCE :: "env \<Rightarrow> websocket \<Rightarrow> server \<Rightarrow> outcome" where
  "on_MY_ATTENDANCE e ws sv =
     (if role ws \<noteq> STUDENT then sendError e ws ''Forbidden, student event only'' sv
      else case activeSession sv of
        None \<Rightarrow> sendError e ws ''No active attendance session'' sv
      | Some s \<Rightarrow>
          (let studentStatus = js_get (attendance s) (userId ws)
           in ws_send e ws
                (JSON_stringify (MyAttendanceMsg (js_or studentStatus (Str ''not yet updated''))))
                sv))"

text \<open>The loop over \<open>classRoom.studentIds\<close>.\<close>

fun mark_absent :: "string list \<Rightarrow> js_object \<Rightarrow> js_object" where
  "mark_absent [] att = att"
| "mark_absent (studentIdStr # rest) att =
     mark_absent rest
       (if \<not> truthy (js_get att studentIdStr) then js_set att studentIdStr ''absent'' else att)"

definition attendanceRecords :: "string \<Rightarrow> js_object \<Rightarrow> attendance_doc list" where
  "attendanceRecords cid att =
     map (\<lambda>kv. \<lparr>doc_classId = cid, doc_studentId = fst kv, doc_status = snd kv\<rparr>) (js_entries att)"

text \<open>
  The absent marks are written into the session object before the store is asked to insert,
  so they stay there when the insert is rejected; the session is cleared and the summary is
  broadcast only after the insert has resolved.
\<close>

definition on_DONE :: "env \<Rightarrow> websocket \<Rightarrow> server \<Rightarrow> outcome" where
  "on_DONE e ws sv =
     (if role ws \<noteq> TEACHER then sendError e ws ''Forbidden, teacher event only'' sv
      else case activeSession sv of
        None \<Rightarrow> sendError e ws ''No active attendance session'' sv
      | Some s \<Rightarrow>
          (case findById e (classId s) of
             Rejected \<Rightarrow> (Some StoreError, sv)
           | Resolved classRoom \<Rightarrow>
               (let att = (case classRoom of
                             None \<Rightarrow> attendance s
                           | Some c \<Rightarrow> mark_absent (studentIds c) (attendance s));
                    sv1 = sv\<lparr>activeSession := Some (s\<lparr>attendance := att\<rparr>)\<rparr>;
                    records = attendanceRecords (classId s) att
                in case (if records \<noteq> [] then insertMany e records else Inserted) of
                     InsertFailed written \<Rightarrow>
                       (Some StoreError, sv1\<lparr>Attendances := Attendances sv1 @ written\<rparr>)
                   | Inserted \<Rightarrow>
                       (case summarize att of
                          (finalPresent, finalAbsent, finalTotal) \<Rightarrow>
                            broadcast e
                              (DoneMsg ''Attendance persisted'' finalPresent finalAbsent finalTotal)
                              (sv1\<lparr>Attendances := Attendances sv1 @ (if records \<noteq> [] then records else []),
                                   activeSession := None\<rparr>)))))"

text \<open>The handler registered by \<open>ws.on("message", ...)\<close> for the socket \<open>ws\<close>.\<close>

definition on_message :: "env \<Rightarrow> websocket \<Rightarrow> message \<Rightarrow> server \<Rightarrow> outcome" where
  "on_message e ws msg sv =
     (case msg of
        ParseFailure \<Rightarrow> sendError e ws ''Invalid message format'' sv
      | JsonNull \<Rightarrow> (Some TypeError, sv)
      | Envelope ev d \<Rightarrow>
          if ev = Some ''ATTENDANCE_MARKED'' then on_ATTENDANCE_MARKED e ws d sv
          else if ev = Some ''TODAY_SUMMARY'' then on_TODAY_SUMMARY e ws sv
          else if ev = Some ''MY_ATTENDANCE'' then on_MY_ATTENDANCE e ws sv
          else if ev = Some ''DONE'' then on_DONE e ws sv
          else sendError e ws ''Unknown event'' sv)"

text \<open>
  The \<open>/ws\<close> route itself: the token of the query string is verified, the user is bound
  to the socket and the socket is registered; otherwise one error frame is sent and the
  socket is closed without having been registered.
\<close>

definition ws_connect :: "env \<Rightarrow> nat \<Rightarrow> string \<Rightarrow> server \<Rightarrow> outcome" where
  "ws_connect e sk token sv =
     (case jwt_verify e token of
        Some (uid, r) \<Rightarrow> (None, sv\<lparr>allWs := allWs sv @ [\<lparr>sock = sk, userId = uid, role = r\<rparr>]\<rparr>)
      | None \<Rightarrow>
          ws_send e \<lparr>sock = sk, userId = [], role = []\<rparr>
            (JSON_stringify (ErrorMsg ''Unauthorized or invalid token'')) sv)"

text \<open>\<open>ws.on("close", ...)\<close>: the socket object is filtered out by identity.\<close>

definition ws_close :: "websocket \<Rightarrow> server \<Rightarrow> server" where
  "ws_close ws sv = sv\<lparr>allWs := filter (\<lambda>w. sock w \<noteq> sock ws) (allWs sv)\<rparr>"

text \<open>A run of Mark events, each with the socket it arrives on, one handler call after the other.\<close>

fun run_marks :: "env \<Rightarrow> (websocket \<times> mark_data) list \<Rightarrow> server \<Rightarrow> server" where
  "run_marks e [] sv = sv"
| "run_marks e (m # ms) sv =
     run_marks e ms
       (snd (on_message e (fst m) (Envelope (Some ''ATTENDANCE_MARKED'') (Some (snd m))) sv))"

text \<open>
  What such a run leaves in the attendance map: the marks of the senders that are teachers,
  in order. It is related to \<open>run_marks\<close> by the lemma \<open>session_after_marks\<close>.
\<close>

fun apply_marks :: "(websocket \<times> mark_data) list \<Rightarrow> js_object \<Rightarrow> js_object" where
  "apply_marks [] att = att"
| "apply_marks (m # ms) att =
     apply_marks ms
       (if role (fst m) = TEACHER then js_set att (studentId (snd m)) (status (snd m)) else att)"

text \<open>No key occurs twice among the own properties of the attendance map.\<close>

definition distinct_keys :: "server \<Rightarrow> bool" where
  "distinct_keys sv =
     (case activeSession sv of None \<Rightarrow> True | Some s \<Rightarrow> distinct (map fst (attendance s)))"

subsection \<open>POST /attendance/start\<close>

text \<open>
  Of a request the route reads the \<open>Authorization\<close> header and the body; the body is
  given by what \<open>startAttendanceSchema.safeParse\<close> makes of it (\<open>None\<close>: the parse
  fails, \<open>Some c\<close>: an object whose \<open>classId\<close> is the string \<open>c\<close>).
\<close>

record request =
  authorization :: "string option"
  body_classId :: "string option"

datatype body = Failure string | StartedData string string

datatype response = Response nat body

datatype http_result = Responded response | Unhandled exn

text \<open>
  middleware.ts, \<open>authMiddleware\<close>: the token is the second piece of a header that starts
  with \<open>Bearer\<close> and a space, else the whole header.
\<close>

definition header_token :: "string option \<Rightarrow> string option" where
  "header_token authHeader =
     (case authHeader of
        None \<Rightarrow> None
      | Some h \<Rightarrow>
          if take 7 h = ''Bearer '' then Some (takeWhile (\<lambda>c. c \<noteq> CHR '' '') (drop 7 h))
          else Some h)"

definition authMiddleware :: "env \<Rightarrow> request \<Rightarrow> response + (string \<times> string)" where
  "authMiddleware e req =
     (case header_token (authorization req) of
        None \<Rightarrow> Inl (Response 401 (Failure ''Unauthorized, token missing or invalid''))
      | Some token \<Rightarrow>
          if token = [] then Inl (Response 401 (Failure ''Unauthorized, token missing or invalid''))
          else case jwt_verify e token of
                 None \<Rightarrow> Inl (Response 401 (Failure ''Unauthorized, token missing or invalid''))
               | Some user \<Rightarrow> Inr user)"

text \<open>middleware.ts, \<open>teacherRoleMiddleware\<close>, on the role that \<open>authMiddleware\<close> stored.\<close>

definition teacherRoleMiddleware :: "string \<Rightarrow> response option" where
  "teacherRoleMiddleware r =
     (if r = [] then Some (Response 403 (Failure ''Forbidden, teacher access required''))
      else if r \<noteq> TEACHER then Some (Response 403 (Failure ''Forbidden, teacher access required''))
      else None)"

definition post_attendance_start :: "env \<Rightarrow> request \<Rightarrow> server \<Rightarrow> http_result \<times> server" where
  "post_attendance_start e req sv =
     (case authMiddleware e req of
        Inl res \<Rightarrow> (Responded res, sv)
      | Inr (reqUserId, reqRole) \<Rightarrow>
          (case teacherRoleMiddleware reqRole of
             Some res \<Rightarrow> (Responded res, sv)
           | None \<Rightarrow>
               (case body_classId req of
                  None \<Rightarrow> (Responded (Response 400 (Failure ''Invalid request schema'')), sv)
                | Some cid \<Rightarrow>
                    (case findById e cid of
                       Rejected \<Rightarrow> (Unhandled StoreError, sv)
                     | Resolved None \<Rightarrow> (Responded (Response 404 (Failure ''Class not found'')), sv)
                     | Resolved (Some classRoom) \<Rightarrow>
                         if teacherId classRoom \<noteq> Some reqUserId
                         then (Responded (Response 403 (Failure ''Forbidden, not class teacher'')), sv)
                         else (Responded (Response 200 (StartedData (class_id classRoom) (now e))),
                               sv\<lparr>activeSession :=
                                    Some \<lparr>classId = class_id classRoom, startedAt = now e,
                                          attendance = []\<rparr>\<rparr>)))))"

subsection \<open>A small classroom, for evaluating the definitions\<close>

definition teacher1 :: websocket where
  "teacher1 = \<lparr>sock = 1, userId = ''64b7f0c2a1d3e4f5a6b7c801'', role = ''teacher''\<rparr>"

definition student2 :: websocket where
  "student2 = \<lparr>sock = 2, userId = ''64b7f0c2a1d3e4f5a6b7c802'', role = ''student''\<rparr>"

definition student3 :: websocket where
  "student3 = \<lparr>sock = 3, userId = ''64b7f0c2a1d3e4f5a6b7c803'', role = ''student''\<rparr>"

text \<open>A student who is not enrolled in the class.\<close>

definition student4 :: websocket where
  "student4 = \<lparr>sock = 4, userId = ''64b7f0c2a1d3e4f5a6b7c804'', role = ''student''\<rparr>"

definition class101 :: class_doc where
  "class101 = \<lparr>class_id = ''64b7f0c2a1d3e4f5a6b7c101'',
                teacherId = Some ''64b7f0c2a1d3e4f5a6b7c801'',
                studentIds = [''64b7f0c2a1d3e4f5a6b7c802'', ''64b7f0c2a1d3e4f5a6b7c803'']\<rparr>"

text \<open>
  Every socket delivers, the store holds the one class, and the database accepts every batch
  that the schema lets through.
\<close>

definition env1 :: env where
  "env1 = \<lparr>send = (\<lambda>_. Delivered),
           findById = (\<lambda>i. Resolved (if i = ''64b7f0c2a1d3e4f5a6b7c101'' then Some class101 else None)),
           insertMany = (\<lambda>docs. if list_all schema_accepts docs then Inserted else InsertFailed []),
           jwt_verify = (\<lambda>t. if t = ''t1'' then Some (''64b7f0c2a1d3e4f5a6b7c801'', ''teacher'') else None),
           now = ''2024-01-01T09:00:00.000Z''\<rparr>"

text \<open>The same, except that the teacher's socket is closing and loses what is sent on it.\<close>

definition env_closing :: env where
  "env_closing = env1\<lparr>send := (\<lambda>k. if k = 1 then Dropped else Delivered)\<rparr>"

definition session101 :: session where
  "session101 = \<lparr>classId = ''64b7f0c2a1d3e4f5a6b7c101'', startedAt = ''2024-01-01T09:00:00.000Z'',
                  attendance = []\<rparr>"

text \<open>Three sockets registered, no session; and the same with a fresh session.\<close>

definition idle :: server where
  "idle = \<lparr>activeSession = None, allWs = [teacher1, student2, student3],
           Attendances = [], delivered = []\<rparr>"

definition started :: server where
  "started = idle\<lparr>activeSession := Some session101\<rparr>"

section \<open>Properties\<close>

subsection \<open>The dictionary\<close>

lemma map_of_upsert: "map_of (upsert k v al) = (map_of al)(k \<mapsto> v)"
  by (induction al) auto

lemma keys_upsert: "fst ` set (upsert k v al) = insert k (fst ` set al)"
  by (induction al) auto

lemma distinct_upsert: "distinct (map fst al) \<Longrightarrow> distinct (map fst (upsert k v al))"
  by (induction al) (auto simp: keys_upsert)

lemma mset_js_entries: "mset (js_entries obj) = mset obj"
  by (simp add: js_entries_def)

lemma set_js_entries: "set (js_entries obj) = set obj"
  by (auto simp: js_entries_def)

lemma length_js_entries: "length (js_entries obj) = length obj"
  using mset_js_entries [of obj] by (metis size_mset)

lemma count_js_values: "length (filter P (js_values obj)) = length (filter P (map snd obj))"
proof -
  have "mset (filter P (js_values obj)) = mset (filter P (map snd obj))"
    by (simp add: js_values_def mset_js_entries)
  then show ?thesis by (metis size_mset)
qed

lemma summarize_counts:
  "summarize att =
     (length (filter (\<lambda>s. s = ''present'') (map snd att)),
      length (filter (\<lambda>s. s = ''absent'') (map snd att)),
      length att)"
  by (simp add: summarize_def Let_def count_js_values) (simp add: js_values_def length_js_entries)

lemma ws_send_eq:
  "ws_send e ws p sv =
     (if send e (sock ws) = Throws then Some (SendError (sock ws)) else None,
      sv\<lparr>delivered := delivered sv @ (if send e (sock ws) = Delivered then [(sock ws, p)] else [])\<rparr>)"
  by (cases "send e (sock ws)") (simp_all add: ws_send_def)

lemma forEach_send_eq:
  "forEach_send e p ws sv =
     (case find (\<lambda>w. send e (sock w) = Throws) ws of
        None \<Rightarrow> None
      | Some w \<Rightarrow> Some (SendError (sock w)),
      sv\<lparr>delivered := delivered sv
            @ map (\<lambda>w. (sock w, p))
                (filter (\<lambda>w. send e (sock w) = Delivered)
                   (takeWhile (\<lambda>w. send e (sock w) \<noteq> Throws) ws))\<rparr>)"
proof (induction ws arbitrary: sv)
  case Nil
  then show ?case by simp
next
  case (Cons w ws)
  then show ?case by (cases "send e (sock w)") (simp_all add: ws_send_def)
qed

lemma object_id_not_inherited: "is_object_id s \<Longrightarrow> s \<notin> set Object_prototype"
  by (auto simp: is_object_id_def Object_prototype_def)

lemma object_id_not_proto: "is_object_id s \<Longrightarrow> s \<noteq> ''__proto__''"
  by (auto simp: is_object_id_def)

lemma map_of_js_set: "k \<noteq> ''__proto__'' \<Longrightarrow> map_of (js_set obj k v) = (map_of obj)(k \<mapsto> v)"
  by (simp add: js_set_def map_of_upsert)

lemma distinct_js_set: "distinct (map fst obj) \<Longrightarrow> distinct (map fst (js_set obj k v))"
  by (simp add: js_set_def distinct_upsert)

lemma map_of_mark_absent:
  "map_of (mark_absent rs att) k =
     (if k \<in> set rs \<and> \<not> truthy (js_get att k) \<and> k \<noteq> ''__proto__'' then Some ''absent''
      else map_of att k)"
proof (induction rs arbitrary: att)
  case Nil
  then show ?case by simp
next
  case (Cons r rs)
  then show ?case
    by (auto simp: js_get_def js_set_def map_of_upsert split: option.splits if_splits)
qed

lemma distinct_mark_absent:
  "distinct (map fst att) \<Longrightarrow> distinct (map fst (mark_absent rs att))"
  by (induction rs arbitrary: att) (simp_all add: distinct_js_set)

lemma single_entry:
  "distinct (map fst al) \<Longrightarrow> map_of al k = Some v \<Longrightarrow> filter (\<lambda>kv. fst kv = k) al = [(k, v)]"
proof (induction al)
  case Nil
  then show ?case by simp
next
  case (Cons p ps)
  show ?case
  proof (cases "fst p = k")
    case True
    with Cons.prems have "p = (k, v)" by (cases p) simp
    moreover from Cons.prems True have "k \<notin> fst ` set ps" by simp
    then have "filter (\<lambda>kv. fst kv = k) ps = []"
      by (force simp: filter_empty_conv)
    ultimately show ?thesis by simp
  next
    case False
    with Cons show ?thesis by simp
  qed
qed

subsection \<open>Sending\<close>

lemma broadcast_eq: "broadcast e m sv = forEach_send e (Json m) (allWs sv) sv"
  by (simp add: broadcast_def JSON_stringify_def)

lemma sendError_eq:
  "sendError e ws m sv =
     (if send e (sock ws) = Throws then Some (SendError (sock ws)) else None,
      sv\<lparr>delivered := delivered sv
            @ (if send e (sock ws) = Delivered then [(sock ws, Json (ErrorMsg m))] else [])\<rparr>)"
  by (simp add: sendError_def JSON_stringify_def ws_send_eq)



subsection \<open>Role and session checks\<close>

text \<open>
  Claim C5. A socket bound to the role student that sends ATTENDANCE\_MARKED gets the
  error frame \<open>Forbidden, teacher event only\<close> and nobody else gets anything: the state
  after the call is the state before it, except that the log of delivered frames has that one
  frame for the sender's socket (if the socket took it). In particular \<open>activeSession\<close>,
  with its attendance map, \<open>classId\<close> and \<open>startedAt\<close>, is unchanged.
\<close>

theorem student_mark_rejected:
  assumes "role ws = STUDENT"
  shows "on_message e ws (Envelope (Some ''ATTENDANCE_MARKED'') d) sv =
           (if send e (sock ws) = Throws then Some (SendError (sock ws)) else None,
            sv\<lparr>delivered := delivered sv
                  @ (if send e (sock ws) = Delivered
                     then [(sock ws, Json (ErrorMsg ''Forbidden, teacher event only''))]
                     else [])\<rparr>)
         \<and> activeSession (snd (on_message e ws (Envelope (Some ''ATTENDANCE_MARKED'') d) sv))
             = activeSession sv"
  using assms
  by (simp add: on_message_def on_ATTENDANCE_MARKED_def sendError_eq STUDENT_def TEACHER_def)

text \<open>A student of the small classroom sends a Mark for their own id.\<close>

theorem student_mark_rejected_witness:
  "role student2 = STUDENT
   \<and> on_message env1 student2
        (Envelope (Some ''ATTENDANCE_MARKED'')
           (Some \<lparr>studentId = ''64b7f0c2a1d3e4f5a6b7c802'', status = ''present''\<rparr>)) started
       = (None, started\<lparr>delivered := [(2, Json (ErrorMsg ''Forbidden, teacher event only''))]\<rparr>)
   \<and> activeSession (snd (on_message env1 student2
        (Envelope (Some ''ATTENDANCE_MARKED'')
           (Some \<lparr>studentId = ''64b7f0c2a1d3e4f5a6b7c802'', status = ''present''\<rparr>)) started))
       = Some session101"
proof -
  have r: "role student2 = STUDENT" by (simp add: student2_def STUDENT_def)
  show ?thesis
    using r student_mark_rejected [OF r, of env1
        "Some \<lparr>studentId = ''64b7f0c2a1d3e4f5a6b7c802'', status = ''present''\<rparr>" started]
    by (simp add: env1_def student2_def started_def idle_def)
qed

text \<open>
  Claim C3, as the code has it. With no active session, each of the four events is answered by
  exactly one error frame to the sender and changes nothing else: no session appears, nothing
  is written to the \<open>Attendances\<close> collection, nothing is broadcast. The role is checked
  before the session, so the frame says \<open>No active attendance session\<close> only when the
  sender has the role the event requires; otherwise it is the role error.
\<close>

theorem no_session_rejected:
  assumes "activeSession sv = None"
    and "ev = ''ATTENDANCE_MARKED'' \<or> ev = ''TODAY_SUMMARY'' \<or> ev = ''MY_ATTENDANCE'' \<or> ev = ''DONE''"
  shows "on_message e ws (Envelope (Some ev) d) sv =
           (if send e (sock ws) = Throws then Some (SendError (sock ws)) else None,
            sv\<lparr>delivered := delivered sv
                  @ (if send e (sock ws) = Delivered
                     then [(sock ws, Json (ErrorMsg
                             (if ev = ''MY_ATTENDANCE''
                              then (if role ws = STUDENT then ''No active attendance session''
                                    else ''Forbidden, student event only'')
                              else (if role ws = TEACHER then ''No active attendance session''
                                    else ''Forbidden, teacher event only''))))]
                     else [])\<rparr>)
         \<and> activeSession (snd (on_message e ws (Envelope (Some ev) d) sv)) = None
         \<and> Attendances (snd (on_message e ws (Envelope (Some ev) d) sv)) = Attendances sv"
  using assms
  by (auto simp: on_message_def on_ATTENDANCE_MARKED_def on_TODAY_SUMMARY_def
      on_MY_ATTENDANCE_def on_DONE_def sendError_eq)

text \<open>
  Claim C3 as stated fails for a sender of the wrong role: with no session active, a student
  who sends ATTENDANCE\_MARKED is told \<open>Forbidden, teacher event only\<close>, not that there
  is no active session.
\<close>

theorem no_session_role_checked_first:
  "activeSession idle = None
   \<and> on_message env1 student2 (Envelope (Some ''ATTENDANCE_MARKED'') None) idle
       = (None, idle\<lparr>delivered := [(2, Json (ErrorMsg ''Forbidden, teacher event only''))]\<rparr>)"
  by (simp add: on_message_def on_ATTENDANCE_MARKED_def sendError_eq env1_def idle_def
      student2_def TEACHER_def)

text \<open>The teacher sends DONE while no session is active.\<close>

theorem no_session_rejected_witness:
  "activeSession idle = None
   \<and> on_message env1 teacher1 (Envelope (Some ''DONE'') None) idle
       = (None, idle\<lparr>delivered := [(1, Json (ErrorMsg ''No active attendance session''))]\<rparr>)
   \<and> activeSession (snd (on_message env1 teacher1 (Envelope (Some ''DONE'') None) idle)) = None
   \<and> Attendances (snd (on_message env1 teacher1 (Envelope (Some ''DONE'') None) idle)) = []"
proof -
  have h: "activeSession idle = None" by (simp add: idle_def)
  show ?thesis
    using h no_session_rejected [OF h, of "''DONE''" env1 teacher1 None]
    by (simp add: env1_def teacher1_def TEACHER_def idle_def)
qed

subsection \<open>Marking\<close>

lemma snd_broadcast:
  "snd (broadcast e m sv) =
     sv\<lparr>delivered := delivered sv
           @ map (\<lambda>w. (sock w, Json m))
               (filter (\<lambda>w. send e (sock w) = Delivered)
                  (takeWhile (\<lambda>w. send e (sock w) \<noteq> Throws) (allWs sv)))\<rparr>"
  by (simp add: broadcast_eq forEach_send_eq)


lemma session_after_mark:
  assumes "activeSession sv = Some s"
  shows "activeSession (snd (on_message e ws (Envelope (Some ''ATTENDANCE_MARKED'') (Some md)) sv)) =
           Some (s\<lparr>attendance :=
                   (if role ws = TEACHER then js_set (attendance s) (studentId md) (status md)
                    else attendance s)\<rparr>)"
  using assms
  by (simp add: on_message_def on_ATTENDANCE_MARKED_def snd_broadcast sendError_eq)

lemma session_after_marks:
  assumes "activeSession sv = Some s"
  shows "activeSession (run_marks e ms sv) = Some (s\<lparr>attendance := apply_marks ms (attendance s)\<rparr>)"
  using assms
proof (induction ms arbitrary: sv s)
  case Nil
  then show ?case by simp
next
  case (Cons m ms)
  have "activeSession (snd (on_message e (fst m) (Envelope (Some ''ATTENDANCE_MARKED'') (Some (snd m))) sv))
          = Some (s\<lparr>attendance :=
                   (if role (fst m) = TEACHER then js_set (attendance s) (studentId (snd m)) (status (snd m))
                    else attendance s)\<rparr>)"
    using Cons.prems by (rule session_after_mark)
  from Cons.IH [OF this] show ?case by simp
qed

lemma apply_marks_append: "apply_marks (ms @ ms') att = apply_marks ms' (apply_marks ms att)"
  by (induction ms arbitrary: att) simp_all

lemma map_of_marks_other:
  "list_all (\<lambda>m. studentId (snd m) \<noteq> k) ms \<Longrightarrow> map_of (apply_marks ms att) k = map_of att k"
  by (induction ms arbitrary: att) (auto simp: js_set_def map_of_upsert)

lemma distinct_apply_marks:
  "distinct (map fst att) \<Longrightarrow> distinct (map fst (apply_marks ms att))"
  by (induction ms arbitrary: att) (simp_all add: distinct_js_set)

lemma my_attendance_by_student:
  assumes "role ws = STUDENT" and "activeSession sv = Some s"
  shows "on_message e ws (Envelope (Some ''MY_ATTENDANCE'') d) sv =
           (if send e (sock ws) = Throws then Some (SendError (sock ws)) else None,
            sv\<lparr>delivered := delivered sv
                  @ (if send e (sock ws) = Delivered
                     then [(sock ws, Json (MyAttendanceMsg
                             (js_or (js_get (attendance s) (userId ws)) (Str ''not yet updated''))))]
                     else [])\<rparr>)"
  using assms by (simp add: on_message_def on_MY_ATTENDANCE_def ws_send_eq JSON_stringify_def)

text \<open>
  Claim C6. In an active session a student asks for their own status. The user id is not the
  name of a member of \<open>Object.prototype\<close> (no ObjectId is, by
  \<open>object_id_not_inherited\<close>). As long as the map has no entry for the user id, and
  whatever Mark events for other students have been handled in between, the answer is
  \<open>not yet updated\<close>; once a teacher's Mark with status
  \<open>present\<close> for that user id has been handled, the answer is \<open>present\<close>. In both
  cases the only frame sent is the one for the requester's socket.
\<close>

theorem my_attendance_status:
  assumes "activeSession sv = Some s"
    and "role ws = STUDENT" and "userId ws \<notin> set Object_prototype"
    and "map_of (attendance s) (userId ws) = None"
    and "list_all (\<lambda>m. studentId (snd m) \<noteq> userId ws) ms"
    and "role t = TEACHER"
  shows "on_message e ws (Envelope (Some ''MY_ATTENDANCE'') d) (run_marks e ms sv) =
           (if send e (sock ws) = Throws then Some (SendError (sock ws)) else None,
            (run_marks e ms sv)\<lparr>delivered := delivered (run_marks e ms sv)
                  @ (if send e (sock ws) = Delivered
                     then [(sock ws, Json (MyAttendanceMsg (Str ''not yet updated'')))]
                     else [])\<rparr>)
       \<and> on_message e ws (Envelope (Some ''MY_ATTENDANCE'') d)
           (run_marks e (ms @ [(t, \<lparr>studentId = userId ws, status = ''present''\<rparr>)]) sv) =
           (if send e (sock ws) = Throws then Some (SendError (sock ws)) else None,
            (run_marks e (ms @ [(t, \<lparr>studentId = userId ws, status = ''present''\<rparr>)]) sv)
              \<lparr>delivered :=
                 delivered (run_marks e (ms @ [(t, \<lparr>studentId = userId ws, status = ''present''\<rparr>)]) sv)
                  @ (if send e (sock ws) = Delivered
                     then [(sock ws, Json (MyAttendanceMsg (Str ''present'')))]
                     else [])\<rparr>)"
proof -
  let ?ms' = "ms @ [(t, \<lparr>studentId = userId ws, status = ''present''\<rparr>)]"
  have uid: "userId ws \<notin> set Object_prototype" "userId ws \<noteq> ''__proto__''"
    using assms(3) by (auto simp: Object_prototype_def)
  have "map_of (apply_marks ms (attendance s)) (userId ws) = None"
    using assms(4,5) by (simp add: map_of_marks_other)
  then have before:
    "js_or (js_get (apply_marks ms (attendance s)) (userId ws)) (Str ''not yet updated'')
       = Str ''not yet updated''"
    using uid by (simp add: js_get_def js_or_def)
  have "map_of (apply_marks ?ms' (attendance s)) (userId ws) = Some ''present''"
    using assms(6) uid by (simp add: apply_marks_append map_of_js_set)
  then have after:
    "js_or (js_get (apply_marks ?ms' (attendance s)) (userId ws)) (Str ''not yet updated'')
       = Str ''present''"
    by (simp add: js_get_def js_or_def)
  have s1: "activeSession (run_marks e ms sv) = Some (s\<lparr>attendance := apply_marks ms (attendance s)\<rparr>)"
    using assms(1) by (rule session_after_marks)
  have s2: "activeSession (run_marks e ?ms' sv) = Some (s\<lparr>attendance := apply_marks ?ms' (attendance s)\<rparr>)"
    using assms(1) by (rule session_after_marks)
  show ?thesis
    using my_attendance_by_student [OF assms(2) s1, of e d]
      my_attendance_by_student [OF assms(2) s2, of e d] before after
    by simp
qed

text \<open>Student 2 asks after the teacher has marked student 3, and again after being marked.\<close>

theorem my_attendance_status_witness:
  "activeSession started = Some session101
   \<and> role student2 = STUDENT \<and> userId student2 \<notin> set Object_prototype
   \<and> map_of (attendance session101) (userId student2) = None
   \<and> list_all (\<lambda>m. studentId (snd m) \<noteq> userId student2)
        [(teacher1, \<lparr>studentId = ''64b7f0c2a1d3e4f5a6b7c803'', status = ''absent''\<rparr>)]
   \<and> role teacher1 = TEACHER
   \<and> on_message env1 student2 (Envelope (Some ''MY_ATTENDANCE'') None)
        (run_marks env1
           [(teacher1, \<lparr>studentId = ''64b7f0c2a1d3e4f5a6b7c803'', status = ''absent''\<rparr>)] started)
      = (None,
         (run_marks env1
           [(teacher1, \<lparr>studentId = ''64b7f0c2a1d3e4f5a6b7c803'', status = ''absent''\<rparr>)] started)
         \<lparr>delivered :=
            delivered (run_marks env1
              [(teacher1, \<lparr>studentId = ''64b7f0c2a1d3e4f5a6b7c803'', status = ''absent''\<rparr>)] started)
            @ [(2, Json (MyAttendanceMsg (Str ''not yet updated'')))]\<rparr>)
   \<and> on_message env1 student2 (Envelope (Some ''MY_ATTENDANCE'') None)
        (run_marks env1
           ([(teacher1, \<lparr>studentId = ''64b7f0c2a1d3e4f5a6b7c803'', status = ''absent''\<rparr>)]
            @ [(teacher1, \<lparr>studentId = userId student2, status = ''present''\<rparr>)]) started)
      = (None,
         (run_marks env1
           ([(teacher1, \<lparr>studentId = ''64b7f0c2a1d3e4f5a6b7c803'', status = ''absent''\<rparr>)]
            @ [(teacher1, \<lparr>studentId = userId student2, status = ''present''\<rparr>)]) started)
         \<lparr>delivered :=
            delivered (run_marks env1
              ([(teacher1, \<lparr>studentId = ''64b7f0c2a1d3e4f5a6b7c803'', status = ''absent''\<rparr>)]
               @ [(teacher1, \<lparr>studentId = userId student2, status = ''present''\<rparr>)]) started)
            @ [(2, Json (MyAttendanceMsg (Str ''present'')))]\<rparr>)"
proof -
  have h: "activeSession started = Some session101" "role student2 = STUDENT"
    "userId student2 \<notin> set Object_prototype"
    "map_of (attendance session101) (userId student2) = None"
    "list_all (\<lambda>m. studentId (snd m) \<noteq> userId student2)
        [(teacher1, \<lparr>studentId = ''64b7f0c2a1d3e4f5a6b7c803'', status = ''absent''\<rparr>)]"
    "role teacher1 = TEACHER"
    by (simp_all add: started_def idle_def student2_def teacher1_def session101_def STUDENT_def
        TEACHER_def Object_prototype_def)
  have snd2: "send env1 (sock student2) = Delivered" "sock student2 = 2"
    by (simp_all add: env1_def student2_def)
  show ?thesis
    using h my_attendance_status [OF h, of env1 None] snd2 by simp
qed

text \<open>
  Claim C10. MY\_ATTENDANCE does not look at the class: whatever the \<open>Classes\<close>
  collection holds (and so whether or not the requester is enrolled in the session's class),
  a socket with the role student gets, in an active session, the status that the attendance
  map holds under its own user id; it gets \<open>not yet updated\<close> when the map holds the
  empty string there, or holds nothing and the user id names no member of
  \<open>Object.prototype\<close>.
\<close>

theorem my_attendance_no_enrollment_check:
  assumes "activeSession sv = Some s" and "role ws = STUDENT"
  shows "on_message (e\<lparr>findById := classes\<rparr>) ws (Envelope (Some ''MY_ATTENDANCE'') d) sv =
           (if send e (sock ws) = Throws then Some (SendError (sock ws)) else None,
            sv\<lparr>delivered := delivered sv
                  @ (if send e (sock ws) = Delivered
                     then [(sock ws, Json (MyAttendanceMsg
                             (case map_of (attendance s) (userId ws) of
                                Some v \<Rightarrow> if v = [] then Str ''not yet updated'' else Str v
                              | None \<Rightarrow> if userId ws \<in> set Object_prototype then Inherited
                                        else Str ''not yet updated'')))]
                     else [])\<rparr>)"
proof -
  have "js_or (js_get (attendance s) (userId ws)) (Str ''not yet updated'') =
          (case map_of (attendance s) (userId ws) of
             Some v \<Rightarrow> if v = [] then Str ''not yet updated'' else Str v
           | None \<Rightarrow> if userId ws \<in> set Object_prototype then Inherited
                     else Str ''not yet updated'')"
    by (simp add: js_or_def js_get_def split: option.splits)
  then show ?thesis
    using my_attendance_by_student [OF assms(2,1), of "e\<lparr>findById := classes\<rparr>" d] by simp
qed

text \<open>
  Student 4 is not on the roster of the class of the session. Marked present, the student is
  told so; in the fresh session, where nobody is marked, the answer is \<open>not yet updated\<close>.
\<close>

theorem my_attendance_no_enrollment_check_witness:
  "activeSession (started\<lparr>activeSession :=
       Some (session101\<lparr>attendance := [(''64b7f0c2a1d3e4f5a6b7c804'', ''present'')]\<rparr>)\<rparr>)
     = Some (session101\<lparr>attendance := [(''64b7f0c2a1d3e4f5a6b7c804'', ''present'')]\<rparr>)
   \<and> activeSession started = Some session101
   \<and> role student4 = STUDENT
   \<and> findById env1 (classId session101) = Resolved (Some class101)
   \<and> userId student4 \<notin> set (studentIds class101)
   \<and> on_message (env1\<lparr>findById := findById env1\<rparr>) student4 (Envelope (Some ''MY_ATTENDANCE'') None)
        (started\<lparr>activeSession :=
           Some (session101\<lparr>attendance := [(''64b7f0c2a1d3e4f5a6b7c804'', ''present'')]\<rparr>)\<rparr>)
      = (None,
         started\<lparr>activeSession :=
             Some (session101\<lparr>attendance := [(''64b7f0c2a1d3e4f5a6b7c804'', ''present'')]\<rparr>),
           delivered := [(4, Json (MyAttendanceMsg (Str ''present'')))]\<rparr>)
   \<and> on_message (env1\<lparr>findById := findById env1\<rparr>) student4 (Envelope (Some ''MY_ATTENDANCE'') None)
        started
      = (None, started\<lparr>delivered := [(4, Json (MyAttendanceMsg (Str ''not yet updated'')))]\<rparr>)"
proof -
  have h: "activeSession (started\<lparr>activeSession :=
       Some (session101\<lparr>attendance := [(''64b7f0c2a1d3e4f5a6b7c804'', ''present'')]\<rparr>)\<rparr>)
     = Some (session101\<lparr>attendance := [(''64b7f0c2a1d3e4f5a6b7c804'', ''present'')]\<rparr>)"
    "role student4 = STUDENT"
    by (simp_all add: student4_def STUDENT_def)
  have h': "activeSession started = Some session101"
    by (simp add: started_def)
  show ?thesis
    using h h'
      my_attendance_no_enrollment_check [OF h, where e = env1 and classes = "findById env1"
          and d = None]
      my_attendance_no_enrollment_check [OF h' h(2), where e = env1 and classes = "findById env1"
          and d = None]
    by (simp add: env1_def student4_def class101_def session101_def started_def idle_def
        Object_prototype_def)
qed

subsection \<open>Mark as an upsert\<close>

lemma upsert_upsert: "upsert k b (upsert k a al) = upsert k b al"
  by (induction al) simp_all

lemma others_upsert: "filter (\<lambda>kv. fst kv \<noteq> k) (upsert k v al) = filter (\<lambda>kv. fst kv \<noteq> k) al"
  by (induction al) simp_all

lemma own_upsert:
  "distinct (map fst al) \<Longrightarrow> filter (\<lambda>kv. fst kv = k) (upsert k v al) = [(k, v)]"
  by (rule single_entry) (simp_all add: distinct_upsert map_of_upsert)

text \<open>
  Claim C8. In an active session, let teachers mark the student \<open>sid\<close> first with status
  \<open>a\<close> and then with status \<open>b\<close>. The session is then what it would be had \<open>sid\<close>
  been marked with \<open>b\<close> alone, so nothing of \<open>a\<close> is kept; the map has exactly one
  entry under \<open>sid\<close>, and it holds \<open>b\<close>; the entries under all other keys are what they
  were; and marking \<open>(sid, a)\<close> twice leaves the session that marking it once leaves.
  The key is any string but \<open>__proto__\<close>, hence any ObjectId (\<open>object_id_not_proto\<close>).
\<close>

theorem mark_upserts_one_entry:
  assumes "activeSession sv = Some s" and "distinct (map fst (attendance s))"
    and "role ws = TEACHER" and "role ws' = TEACHER"
    and "sid \<noteq> ''__proto__''"
  shows "activeSession (run_marks e [(ws, \<lparr>studentId = sid, status = a\<rparr>),
                                      (ws', \<lparr>studentId = sid, status = b\<rparr>)] sv)
           = Some (s\<lparr>attendance := js_set (attendance s) sid b\<rparr>)
       \<and> filter (\<lambda>kv. fst kv = sid) (js_set (attendance s) sid b) = [(sid, b)]
       \<and> filter (\<lambda>kv. fst kv \<noteq> sid) (js_set (attendance s) sid b)
           = filter (\<lambda>kv. fst kv \<noteq> sid) (attendance s)
       \<and> activeSession (run_marks e [(ws, \<lparr>studentId = sid, status = a\<rparr>),
                                      (ws', \<lparr>studentId = sid, status = a\<rparr>)] sv)
           = activeSession (run_marks e [(ws, \<lparr>studentId = sid, status = a\<rparr>)] sv)"
  using assms
  by (simp add: session_after_marks js_set_def upsert_upsert others_upsert own_upsert
      del: run_marks.simps)

text \<open>The teacher marks student 2 absent and then present, in a session that holds a mark for student 3.\<close>

theorem mark_upserts_one_entry_witness:
  "activeSession (started\<lparr>activeSession :=
       Some (session101\<lparr>attendance := [(''64b7f0c2a1d3e4f5a6b7c803'', ''present'')]\<rparr>)\<rparr>)
     = Some (session101\<lparr>attendance := [(''64b7f0c2a1d3e4f5a6b7c803'', ''present'')]\<rparr>)
   \<and> distinct (map fst (attendance (session101\<lparr>attendance := [(''64b7f0c2a1d3e4f5a6b7c803'', ''present'')]\<rparr>)))
   \<and> role teacher1 = TEACHER
   \<and> ''64b7f0c2a1d3e4f5a6b7c802'' \<noteq> ''__proto__''
   \<and> activeSession (run_marks env1
         [(teacher1, \<lparr>studentId = ''64b7f0c2a1d3e4f5a6b7c802'', status = ''absent''\<rparr>),
          (teacher1, \<lparr>studentId = ''64b7f0c2a1d3e4f5a6b7c802'', status = ''present''\<rparr>)]
         (started\<lparr>activeSession :=
            Some (session101\<lparr>attendance := [(''64b7f0c2a1d3e4f5a6b7c803'', ''present'')]\<rparr>)\<rparr>))
     = Some (session101\<lparr>attendance :=
               [(''64b7f0c2a1d3e4f5a6b7c803'', ''present''), (''64b7f0c2a1d3e4f5a6b7c802'', ''present'')]\<rparr>)"
proof -
  have h: "activeSession (started\<lparr>activeSession :=
       Some (session101\<lparr>attendance := [(''64b7f0c2a1d3e4f5a6b7c803'', ''present'')]\<rparr>)\<rparr>)
     = Some (session101\<lparr>attendance := [(''64b7f0c2a1d3e4f5a6b7c803'', ''present'')]\<rparr>)"
    "distinct (map fst (attendance (session101\<lparr>attendance := [(''64b7f0c2a1d3e4f5a6b7c803'', ''present'')]\<rparr>)))"
    "role teacher1 = TEACHER" "role teacher1 = TEACHER"
    "''64b7f0c2a1d3e4f5a6b7c802'' \<noteq> ''__proto__''"
    by (simp_all add: teacher1_def TEACHER_def)
  show ?thesis
    using h mark_upserts_one_entry [OF h, where e = env1 and a = "''absent''" and b = "''present''"]
    by (simp add: js_set_def del: run_marks.simps)
qed

subsection \<open>Starting a session\<close>

text \<open>
  Claim C7. A request whose token verifies to a teacher, whose body names a class that the
  store finds, and whose user is that class's \<open>teacherId\<close>, is answered with 200 and the
  pair of class id and start time, and leaves \<open>activeSession\<close> set to a record with that
  class id (the \<open>_id\<close> of the document found under the requested id), the clock's reading
  and an empty attendance map. Nothing is asked of the state before: a session that was
  active is replaced, and its marks are neither kept nor written anywhere nor announced.
\<close>

theorem start_sets_fresh_session:
  assumes "header_token (authorization req) = Some token" and "token \<noteq> []"
    and "jwt_verify e token = Some (uid, TEACHER)"
    and "body_classId req = Some cid"
    and "findById e cid = Resolved (Some classRoom)"
    and "teacherId classRoom = Some uid"
  shows "post_attendance_start e req sv =
           (Responded (Response 200 (StartedData (class_id classRoom) (now e))),
            sv\<lparr>activeSession :=
                 Some \<lparr>classId = class_id classRoom, startedAt = now e, attendance = []\<rparr>\<rparr>)"
  using assms
  by (simp add: post_attendance_start_def authMiddleware_def teacherRoleMiddleware_def TEACHER_def)

text \<open>The teacher starts the class again while a session with one mark is active.\<close>

theorem start_sets_fresh_session_witness:
  "header_token (authorization \<lparr>authorization = Some ''Bearer t1'',
                                 body_classId = Some ''64b7f0c2a1d3e4f5a6b7c101''\<rparr>) = Some ''t1''
   \<and> ''t1'' \<noteq> []
   \<and> jwt_verify env1 ''t1'' = Some (''64b7f0c2a1d3e4f5a6b7c801'', TEACHER)
   \<and> findById env1 ''64b7f0c2a1d3e4f5a6b7c101'' = Resolved (Some class101)
   \<and> teacherId class101 = Some ''64b7f0c2a1d3e4f5a6b7c801''
   \<and> post_attendance_start env1
        \<lparr>authorization = Some ''Bearer t1'', body_classId = Some ''64b7f0c2a1d3e4f5a6b7c101''\<rparr>
        (idle\<lparr>activeSession :=
           Some \<lparr>classId = ''64b7f0c2a1d3e4f5a6b7c101'', startedAt = ''2023-12-31T09:00:00.000Z'',
                 attendance = [(''64b7f0c2a1d3e4f5a6b7c802'', ''present'')]\<rparr>\<rparr>)
      = (Responded (Response 200
           (StartedData ''64b7f0c2a1d3e4f5a6b7c101'' ''2024-01-01T09:00:00.000Z'')),
         idle\<lparr>activeSession :=
           Some \<lparr>classId = ''64b7f0c2a1d3e4f5a6b7c101'', startedAt = ''2024-01-01T09:00:00.000Z'',
                 attendance = []\<rparr>\<rparr>)"
proof -
  have h: "header_token (authorization \<lparr>authorization = Some ''Bearer t1'',
                                 body_classId = Some ''64b7f0c2a1d3e4f5a6b7c101''\<rparr>) = Some ''t1''"
    "''t1'' \<noteq> []"
    "jwt_verify env1 ''t1'' = Some (''64b7f0c2a1d3e4f5a6b7c801'', TEACHER)"
    "body_classId \<lparr>authorization = Some ''Bearer t1'',
                   body_classId = Some ''64b7f0c2a1d3e4f5a6b7c101''\<rparr> = Some ''64b7f0c2a1d3e4f5a6b7c101''"
    "findById env1 ''64b7f0c2a1d3e4f5a6b7c101'' = Resolved (Some class101)"
    "teacherId class101 = Some ''64b7f0c2a1d3e4f5a6b7c801''"
    by (simp_all add: header_token_def env1_def class101_def TEACHER_def)
  have c: "class_id class101 = ''64b7f0c2a1d3e4f5a6b7c101''" "now env1 = ''2024-01-01T09:00:00.000Z''"
    by (simp_all add: class101_def env1_def)
  show ?thesis
    using h start_sets_fresh_session [OF h, where sv = "idle\<lparr>activeSession :=
           Some \<lparr>classId = ''64b7f0c2a1d3e4f5a6b7c101'', startedAt = ''2023-12-31T09:00:00.000Z'',
                 attendance = [(''64b7f0c2a1d3e4f5a6b7c802'', ''present'')]\<rparr>\<rparr>"] c
    by simp
qed

subsection \<open>Counting and finalising\<close>




lemma summarize_entries:
  "summarize att =
     (length (filter (\<lambda>kv. snd kv = ''present'') att),
      length (filter (\<lambda>kv. snd kv = ''absent'') att),
      length att)"
  by (simp add: summarize_counts filter_map comp_def)

lemma done_by_teacher:
  assumes "role ws = TEACHER" and "activeSession sv = Some s"
    and "findById e (classId s) = Resolved classRoom"
    and "final = (case classRoom of None \<Rightarrow> attendance s
                  | Some c \<Rightarrow> mark_absent (studentIds c) (attendance s))"
    and "attendanceRecords (classId s) final = []
         \<or> insertMany e (attendanceRecords (classId s) final) = Inserted"
  shows "on_message e ws (Envelope (Some ''DONE'') d) sv =
           broadcast e
             (DoneMsg ''Attendance persisted''
                (length (filter (\<lambda>kv. snd kv = ''present'') final))
                (length (filter (\<lambda>kv. snd kv = ''absent'') final))
                (length final))
             (sv\<lparr>Attendances := Attendances sv @ attendanceRecords (classId s) final,
                 activeSession := None\<rparr>)"
  using assms(1,2,3,5) unfolding assms(4)
  by (auto simp: on_message_def on_DONE_def Let_def summarize_entries split: option.splits)



lemma batch_empty: "attendanceRecords cid att = [] \<longleftrightarrow> att = []"
  using length_js_entries [of att] by (auto simp: attendanceRecords_def)

lemma batch_accepted:
  "list_all schema_accepts (attendanceRecords cid att) =
     list_all (\<lambda>kv. snd kv \<in> set AttendanceStatus) att"
  by (auto simp: attendanceRecords_def list_all_iff set_js_entries schema_accepts_def)




subsection \<open>Evaluation in the small classroom\<close>

lemmas handler_defs =
  on_message_def on_ATTENDANCE_MARKED_def on_TODAY_SUMMARY_def on_MY_ATTENDANCE_def on_DONE_def
  broadcast_def sendError_def ws_send_def JSON_stringify_def summarize_def attendanceRecords_def
  js_values_def js_entries_def is_array_index_def js_set_def js_get_def Object_prototype_def
  TEACHER_def STUDENT_def Let_def

lemmas classroom_defs =
  env1_def env_closing_def schema_accepts_def AttendanceStatus_def teacher1_def student2_def
  student3_def student4_def class101_def session101_def idle_def started_def



text \<open>
  The empty string at work: marked with it, student 2 is on the roster and is persisted as
  \<open>absent\<close>, in a batch that the schema accepts.
\<close>

lemma blank_status_becomes_absent:
  "Attendances (snd (on_message env1 teacher1 (Envelope (Some ''DONE'') None)
        (run_marks env1
           [(teacher1, \<lparr>studentId = ''64b7f0c2a1d3e4f5a6b7c802'', status = []\<rparr>)] started)))
     = [\<lparr>doc_classId = ''64b7f0c2a1d3e4f5a6b7c101'', doc_studentId = ''64b7f0c2a1d3e4f5a6b7c802'',
         doc_status = ''absent''\<rparr>,
        \<lparr>doc_classId = ''64b7f0c2a1d3e4f5a6b7c101'', doc_studentId = ''64b7f0c2a1d3e4f5a6b7c803'',
         doc_status = ''absent''\<rparr>]"
  by (simp add: handler_defs classroom_defs)

subsection \<open>The summary after a run of marks\<close>

lemma keys_apply_marks:
  "list_all (\<lambda>m. role (fst m) = TEACHER \<and> studentId (snd m) \<noteq> ''__proto__'') ms \<Longrightarrow>
   fst ` set (apply_marks ms att) = fst ` set att \<union> (\<lambda>m. studentId (snd m)) ` set ms"
  by (induction ms arbitrary: att) (auto simp: js_set_def keys_upsert)

lemma length_keys: "distinct (map fst al) \<Longrightarrow> length al = card (fst ` set al)"
  using distinct_card [of "map fst al"] by simp

lemma two_counts:
  "a \<noteq> b \<Longrightarrow>
   length (filter (\<lambda>kv. snd kv = a) al) + length (filter (\<lambda>kv. snd kv = b) al) \<le> length al
   \<and> (length (filter (\<lambda>kv. snd kv = a) al) + length (filter (\<lambda>kv. snd kv = b) al) = length al)
       = list_all (\<lambda>kv. snd kv = a \<or> snd kv = b) al"
  by (induction al) auto

text \<open>
  Claim C2, as the code has it. Teachers send any run of Mark events whose student ids are
  not \<open>__proto__\<close> (every ObjectId qualifies) into an active session; then a teacher asks
  for the summary. The total that is broadcast is the number of distinct students in the map,
  those marked before the run and those marked in it. Present and absent together never
  exceed the total, and they add up to it exactly when every status in the map is
  \<open>present\<close> or \<open>absent\<close>; Mark accepts other statuses, so they need not.
\<close>

theorem summary_after_marks:
  assumes "activeSession sv = Some s" and "distinct (map fst (attendance s))"
    and "list_all (\<lambda>m. role (fst m) = TEACHER \<and> studentId (snd m) \<noteq> ''__proto__'') ms"
    and "role ws = TEACHER"
    and "activeSession (run_marks e ms sv) = Some s'"
    and "summarize (attendance s') = (p, a, t)"
  shows "on_message e ws (Envelope (Some ''TODAY_SUMMARY'') d) (run_marks e ms sv)
           = broadcast e (TodaySummaryMsg p a t) (run_marks e ms sv)
       \<and> t = card (fst ` set (attendance s) \<union> (\<lambda>m. studentId (snd m)) ` set ms)
       \<and> p + a \<le> t
       \<and> (p + a = t) = list_all (\<lambda>kv. snd kv = ''present'' \<or> snd kv = ''absent'') (attendance s')"
proof -
  have s': "s' = s\<lparr>attendance := apply_marks ms (attendance s)\<rparr>"
    using session_after_marks [OF assms(1), of e ms] assms(5) by simp
  have att: "attendance s' = apply_marks ms (attendance s)"
    by (simp add: s')
  have counts: "p = length (filter (\<lambda>kv. snd kv = ''present'') (attendance s'))"
    "a = length (filter (\<lambda>kv. snd kv = ''absent'') (attendance s'))"
    "t = length (attendance s')"
    using assms(6) by (simp_all add: summarize_entries)
  have "distinct (map fst (attendance s'))"
    using assms(2) by (simp add: att distinct_apply_marks)
  then have "t = card (fst ` set (attendance s'))"
    by (simp add: counts length_keys)
  then have total: "t = card (fst ` set (attendance s) \<union> (\<lambda>m. studentId (snd m)) ` set ms)"
    using assms(3) by (simp add: att keys_apply_marks)
  have sent: "on_message e ws (Envelope (Some ''TODAY_SUMMARY'') d) (run_marks e ms sv)
           = broadcast e (TodaySummaryMsg p a t) (run_marks e ms sv)"
    using assms(4,5,6) by (simp add: on_message_def on_TODAY_SUMMARY_def)
  have "''present'' \<noteq> ''absent''" by simp
  from two_counts [OF this, of "attendance s'"] sent total show ?thesis
    by (simp add: counts)
qed

text \<open>
  In a fresh session the teacher marks student 2 present, student 3 absent and student 2
  present again: two distinct students, one present, one absent.
\<close>

theorem summary_after_marks_witness:
  "activeSession started = Some session101 \<and> distinct (map fst (attendance session101))
   \<and> list_all (\<lambda>m. role (fst m) = TEACHER \<and> studentId (snd m) \<noteq> ''__proto__'')
        [(teacher1, \<lparr>studentId = ''64b7f0c2a1d3e4f5a6b7c802'', status = ''present''\<rparr>),
         (teacher1, \<lparr>studentId = ''64b7f0c2a1d3e4f5a6b7c803'', status = ''absent''\<rparr>),
         (teacher1, \<lparr>studentId = ''64b7f0c2a1d3e4f5a6b7c802'', status = ''present''\<rparr>)]
   \<and> role teacher1 = TEACHER
   \<and> activeSession (run_marks env1
        [(teacher1, \<lparr>studentId = ''64b7f0c2a1d3e4f5a6b7c802'', status = ''present''\<rparr>),
         (teacher1, \<lparr>studentId = ''64b7f0c2a1d3e4f5a6b7c803'', status = ''absent''\<rparr>),
         (teacher1, \<lparr>studentId = ''64b7f0c2a1d3e4f5a6b7c802'', status = ''present''\<rparr>)] started)
       = Some (session101\<lparr>attendance := [(''64b7f0c2a1d3e4f5a6b7c802'', ''present''),
                                            (''64b7f0c2a1d3e4f5a6b7c803'', ''absent'')]\<rparr>)
   \<and> summarize (attendance (session101\<lparr>attendance := [(''64b7f0c2a1d3e4f5a6b7c802'', ''present''),
                                            (''64b7f0c2a1d3e4f5a6b7c803'', ''absent'')]\<rparr>)) = (1, 1, 2)
   \<and> (2::nat) = card (fst ` set (attendance session101)
         \<union> (\<lambda>m. studentId (snd m)) ` set
        [(teacher1, \<lparr>studentId = ''64b7f0c2a1d3e4f5a6b7c802'', status = ''present''\<rparr>),
         (teacher1, \<lparr>studentId = ''64b7f0c2a1d3e4f5a6b7c803'', status = ''absent''\<rparr>),
         (teacher1, \<lparr>studentId = ''64b7f0c2a1d3e4f5a6b7c802'', status = ''present''\<rparr>)])
   \<and> (1::nat) + 1 = 2"
proof -
  let ?ms = "[(teacher1, \<lparr>studentId = ''64b7f0c2a1d3e4f5a6b7c802'', status = ''present''\<rparr>),
         (teacher1, \<lparr>studentId = ''64b7f0c2a1d3e4f5a6b7c803'', status = ''absent''\<rparr>),
         (teacher1, \<lparr>studentId = ''64b7f0c2a1d3e4f5a6b7c802'', status = ''present''\<rparr>)]"
  let ?s' = "session101\<lparr>attendance := [(''64b7f0c2a1d3e4f5a6b7c802'', ''present''),
                                            (''64b7f0c2a1d3e4f5a6b7c803'', ''absent'')]\<rparr>"
  have h1: "activeSession started = Some session101" "distinct (map fst (attendance session101))"
    "list_all (\<lambda>m. role (fst m) = TEACHER \<and> studentId (snd m) \<noteq> ''__proto__'') ?ms"
    "role teacher1 = TEACHER"
    by (simp_all add: classroom_defs TEACHER_def)
  have h2: "activeSession (run_marks env1 ?ms started) = Some ?s'"
    using h1(1,4) by (simp add: session_after_marks js_set_def session101_def del: run_marks.simps)
  have h3: "summarize (attendance ?s') = (1, 1, 2)"
    by (simp add: summarize_entries)
  note rest = summary_after_marks [OF h1 h2 h3, where d = None, THEN conjunct2]
  show ?thesis
    using h1 h2 h3 rest by simp
qed

text \<open>
  Claim C2 as stated fails when a status is neither \<open>present\<close> nor \<open>absent\<close>: after
  the single mark \<open>late\<close> the summary that every socket gets is 0 present, 0 absent,
  1 in total.
\<close>

theorem summary_of_late_mark:
  "on_message env1 teacher1 (Envelope (Some ''TODAY_SUMMARY'') None)
     (run_marks env1
        [(teacher1, \<lparr>studentId = ''64b7f0c2a1d3e4f5a6b7c802'', status = ''late''\<rparr>)] started)
   = (None,
      started\<lparr>activeSession :=
          Some (session101\<lparr>attendance := [(''64b7f0c2a1d3e4f5a6b7c802'', ''late'')]\<rparr>),
        delivered := [(1, Json (AttendanceMarkedMsg ''64b7f0c2a1d3e4f5a6b7c802'' ''late'')),
                      (2, Json (AttendanceMarkedMsg ''64b7f0c2a1d3e4f5a6b7c802'' ''late'')),
                      (3, Json (AttendanceMarkedMsg ''64b7f0c2a1d3e4f5a6b7c802'' ''late'')),
                      (1, Json (TodaySummaryMsg 0 0 1)), (2, Json (TodaySummaryMsg 0 0 1)),
                      (3, Json (TodaySummaryMsg 0 0 1))]\<rparr>)"
  by (simp add: handler_defs classroom_defs)

subsection \<open>Finalising\<close>

lemma status_after_mark_absent:
  assumes "r \<in> set rs" and "r \<notin> set Object_prototype"
  shows "map_of (mark_absent rs att) r =
           Some (case map_of att r of
                   None \<Rightarrow> ''absent''
                 | Some v \<Rightarrow> if v = [] then ''absent'' else v)"
proof -
  have "r \<noteq> ''__proto__''"
    using assms(2) by (auto simp: Object_prototype_def)
  with assms show ?thesis
    by (simp add: map_of_mark_absent js_get_def split: option.splits)
qed

text \<open>
  Claim C1, as the code has it. A teacher sends DONE in an active session; the class is
  found, with a roster of ids none of which names a member of \<open>Object.prototype\<close> (no
  ObjectId does), and the store accepts the batch (or there is nothing to insert). Then the
  resulting map has exactly one entry for every student of the roster: the status marked
  before if there is one and it is not the empty string, else \<open>absent\<close>. The map is what
  is written to the store, the summary that is broadcast counts it, and afterwards no
  session is active.
\<close>

theorem done_finalizes_roster:
  assumes "role ws = TEACHER" and "activeSession sv = Some s"
    and "distinct (map fst (attendance s))"
    and "findById e (classId s) = Resolved (Some c)"
    and "list_all (\<lambda>r. r \<notin> set Object_prototype) (studentIds c)"
    and "final = mark_absent (studentIds c) (attendance s)"
    and "final = [] \<or> insertMany e (attendanceRecords (classId s) final) = Inserted"
  shows "(\<forall>r \<in> set (studentIds c).
            filter (\<lambda>kv. fst kv = r) final =
              [(r, case map_of (attendance s) r of
                     None \<Rightarrow> ''absent''
                   | Some v \<Rightarrow> if v = [] then ''absent'' else v)])
       \<and> on_message e ws (Envelope (Some ''DONE'') d) sv =
           broadcast e
             (DoneMsg ''Attendance persisted''
                (length (filter (\<lambda>kv. snd kv = ''present'') final))
                (length (filter (\<lambda>kv. snd kv = ''absent'') final))
                (length final))
             (sv\<lparr>Attendances := Attendances sv @ attendanceRecords (classId s) final,
                 activeSession := None\<rparr>)
       \<and> activeSession (snd (on_message e ws (Envelope (Some ''DONE'') d) sv)) = None"
proof -
  have one: "filter (\<lambda>kv. fst kv = r) final =
      [(r, case map_of (attendance s) r of
             None \<Rightarrow> ''absent''
           | Some v \<Rightarrow> if v = [] then ''absent'' else v)]"
    if "r \<in> set (studentIds c)" for r
  proof (rule single_entry)
    show "distinct (map fst final)"
      using assms(3) by (simp add: assms(6) distinct_mark_absent)
    have "r \<notin> set Object_prototype"
      using assms(5) that by (simp add: list_all_iff)
    with that show "map_of final r =
        Some (case map_of (attendance s) r of
                None \<Rightarrow> ''absent''
              | Some v \<Rightarrow> if v = [] then ''absent'' else v)"
      unfolding assms(6) by (rule status_after_mark_absent)
  qed
  have sent: "on_message e ws (Envelope (Some ''DONE'') d) sv =
      broadcast e
        (DoneMsg ''Attendance persisted''
           (length (filter (\<lambda>kv. snd kv = ''present'') final))
           (length (filter (\<lambda>kv. snd kv = ''absent'') final))
           (length final))
        (sv\<lparr>Attendances := Attendances sv @ attendanceRecords (classId s) final,
            activeSession := None\<rparr>)"
  proof (rule done_by_teacher [OF assms(1,2,4)])
    show "final = (case Some c of None \<Rightarrow> attendance s
                   | Some c \<Rightarrow> mark_absent (studentIds c) (attendance s))"
      by (simp add: assms(6))
    show "attendanceRecords (classId s) final = []
          \<or> insertMany e (attendanceRecords (classId s) final) = Inserted"
      using assms(7) by (auto simp: batch_empty)
  qed
  then have "activeSession (snd (on_message e ws (Envelope (Some ''DONE'') d) sv)) = None"
    by (simp add: snd_broadcast)
  with one sent show ?thesis by blast
qed

text \<open>
  The scenario of the specification: student 2 has been marked present, student 3 has not
  been marked, and the teacher ends the session.
\<close>

theorem done_finalizes_roster_witness:
  "role teacher1 = TEACHER
   \<and> activeSession (started\<lparr>activeSession :=
        Some (session101\<lparr>attendance := [(''64b7f0c2a1d3e4f5a6b7c802'', ''present'')]\<rparr>)\<rparr>)
       = Some (session101\<lparr>attendance := [(''64b7f0c2a1d3e4f5a6b7c802'', ''present'')]\<rparr>)
   \<and> distinct (map fst [(''64b7f0c2a1d3e4f5a6b7c802'', ''present'')])
   \<and> findById env1 ''64b7f0c2a1d3e4f5a6b7c101'' = Resolved (Some class101)
   \<and> list_all (\<lambda>r. r \<notin> set Object_prototype) (studentIds class101)
   \<and> mark_absent (studentIds class101) [(''64b7f0c2a1d3e4f5a6b7c802'', ''present'')]
       = [(''64b7f0c2a1d3e4f5a6b7c802'', ''present''), (''64b7f0c2a1d3e4f5a6b7c803'', ''absent'')]
   \<and> insertMany env1 (attendanceRecords ''64b7f0c2a1d3e4f5a6b7c101''
        [(''64b7f0c2a1d3e4f5a6b7c802'', ''present''), (''64b7f0c2a1d3e4f5a6b7c803'', ''absent'')])
       = Inserted
   \<and> filter (\<lambda>kv. fst kv = ''64b7f0c2a1d3e4f5a6b7c802'')
        [(''64b7f0c2a1d3e4f5a6b7c802'', ''present''), (''64b7f0c2a1d3e4f5a6b7c803'', ''absent'')]
       = [(''64b7f0c2a1d3e4f5a6b7c802'', ''present'')]
   \<and> filter (\<lambda>kv. fst kv = ''64b7f0c2a1d3e4f5a6b7c803'')
        [(''64b7f0c2a1d3e4f5a6b7c802'', ''present''), (''64b7f0c2a1d3e4f5a6b7c803'', ''absent'')]
       = [(''64b7f0c2a1d3e4f5a6b7c803'', ''absent'')]
   \<and> on_message env1 teacher1 (Envelope (Some ''DONE'') None)
        (started\<lparr>activeSession :=
           Some (session101\<lparr>attendance := [(''64b7f0c2a1d3e4f5a6b7c802'', ''present'')]\<rparr>)\<rparr>)
       = broadcast env1 (DoneMsg ''Attendance persisted'' 1 1 2)
           (idle\<lparr>Attendances := attendanceRecords ''64b7f0c2a1d3e4f5a6b7c101''
              [(''64b7f0c2a1d3e4f5a6b7c802'', ''present''), (''64b7f0c2a1d3e4f5a6b7c803'', ''absent'')]\<rparr>)
   \<and> activeSession (snd (on_message env1 teacher1 (Envelope (Some ''DONE'') None)
        (started\<lparr>activeSession :=
           Some (session101\<lparr>attendance := [(''64b7f0c2a1d3e4f5a6b7c802'', ''present'')]\<rparr>)\<rparr>)))
       = None"
proof -
  let ?s = "session101\<lparr>attendance := [(''64b7f0c2a1d3e4f5a6b7c802'', ''present'')]\<rparr>"
  let ?final = "[(''64b7f0c2a1d3e4f5a6b7c802'', ''present''), (''64b7f0c2a1d3e4f5a6b7c803'', ''absent'')]"
  have ma: "mark_absent (studentIds class101) [(''64b7f0c2a1d3e4f5a6b7c802'', ''present'')] = ?final"
    by (simp add: class101_def js_get_def js_set_def Object_prototype_def)
  have h: "role teacher1 = TEACHER"
    "activeSession (started\<lparr>activeSession := Some ?s\<rparr>) = Some ?s"
    "distinct (map fst (attendance ?s))"
    "findById env1 (classId ?s) = Resolved (Some class101)"
    "list_all (\<lambda>r. r \<notin> set Object_prototype) (studentIds class101)"
    "?final = mark_absent (studentIds class101) (attendance ?s)"
    "?final = [] \<or> insertMany env1 (attendanceRecords (classId ?s) ?final) = Inserted"
    using ma
    by (simp_all add: env1_def teacher1_def class101_def session101_def started_def idle_def
        batch_accepted AttendanceStatus_def TEACHER_def Object_prototype_def)
  have g: "findById env1 ''64b7f0c2a1d3e4f5a6b7c101'' = Resolved (Some class101)"
    "insertMany env1 (attendanceRecords ''64b7f0c2a1d3e4f5a6b7c101'' ?final) = Inserted"
    by (simp_all add: env1_def batch_accepted AttendanceStatus_def)
  have sent: "on_message env1 teacher1 (Envelope (Some ''DONE'') None)
        (started\<lparr>activeSession := Some ?s\<rparr>)
       = broadcast env1 (DoneMsg ''Attendance persisted'' 1 1 2)
           (idle\<lparr>Attendances := attendanceRecords ''64b7f0c2a1d3e4f5a6b7c101'' ?final\<rparr>)"
    using done_finalizes_roster [OF h, where d = None, THEN conjunct2, THEN conjunct1]
    by (simp add: started_def idle_def session101_def numeral_2_eq_2)
  have roster: "\<forall>r \<in> set (studentIds class101).
      filter (\<lambda>kv. fst kv = r) ?final =
        [(r, case map_of (attendance ?s) r of
               None \<Rightarrow> ''absent''
             | Some v \<Rightarrow> if v = [] then ''absent'' else v)]"
    using done_finalizes_roster [OF h, where d = None, THEN conjunct1] .
  from sent roster show ?thesis
    using h(1,5) g ma by (simp add: snd_broadcast idle_def class101_def)
qed

text \<open>
  Claim C1 as stated fails for a student who was marked with the empty string. The teacher
  marks student 2 present and student 3 with the empty string, and then sends DONE: student 3
  has a marked value, yet the resulting map, the store and the summary show \<open>absent\<close>.
\<close>

theorem done_overwrites_blank_mark:
  "activeSession (run_marks env1
       [(teacher1, \<lparr>studentId = ''64b7f0c2a1d3e4f5a6b7c802'', status = ''present''\<rparr>),
        (teacher1, \<lparr>studentId = ''64b7f0c2a1d3e4f5a6b7c803'', status = []\<rparr>)] started)
     = Some (session101\<lparr>attendance :=
         [(''64b7f0c2a1d3e4f5a6b7c802'', ''present''), (''64b7f0c2a1d3e4f5a6b7c803'', [])]\<rparr>)
   \<and> mark_absent (studentIds class101)
       [(''64b7f0c2a1d3e4f5a6b7c802'', ''present''), (''64b7f0c2a1d3e4f5a6b7c803'', [])]
     = [(''64b7f0c2a1d3e4f5a6b7c802'', ''present''), (''64b7f0c2a1d3e4f5a6b7c803'', ''absent'')]
   \<and> on_message env1 teacher1 (Envelope (Some ''DONE'') None)
       (run_marks env1
          [(teacher1, \<lparr>studentId = ''64b7f0c2a1d3e4f5a6b7c802'', status = ''present''\<rparr>),
           (teacher1, \<lparr>studentId = ''64b7f0c2a1d3e4f5a6b7c803'', status = []\<rparr>)] started)
     = (None,
        idle\<lparr>Attendances :=
            [\<lparr>doc_classId = ''64b7f0c2a1d3e4f5a6b7c101'', doc_studentId = ''64b7f0c2a1d3e4f5a6b7c802'',
              doc_status = ''present''\<rparr>,
             \<lparr>doc_classId = ''64b7f0c2a1d3e4f5a6b7c101'', doc_studentId = ''64b7f0c2a1d3e4f5a6b7c803'',
              doc_status = ''absent''\<rparr>],
          delivered := [(1, Json (AttendanceMarkedMsg ''64b7f0c2a1d3e4f5a6b7c802'' ''present'')),
                        (2, Json (AttendanceMarkedMsg ''64b7f0c2a1d3e4f5a6b7c802'' ''present'')),
                        (3, Json (AttendanceMarkedMsg ''64b7f0c2a1d3e4f5a6b7c802'' ''present'')),
                        (1, Json (AttendanceMarkedMsg ''64b7f0c2a1d3e4f5a6b7c803'' [])),
                        (2, Json (AttendanceMarkedMsg ''64b7f0c2a1d3e4f5a6b7c803'' [])),
                        (3, Json (AttendanceMarkedMsg ''64b7f0c2a1d3e4f5a6b7c803'' [])),
                        (1, Json (DoneMsg ''Attendance persisted'' 1 1 2)),
                        (2, Json (DoneMsg ''Attendance persisted'' 1 1 2)),
                        (3, Json (DoneMsg ''Attendance persisted'' 1 1 2))]\<rparr>)"
  by (simp add: handler_defs classroom_defs)

subsection \<open>The keys of the attendance map stay distinct\<close>

text \<open>
  An object has at most one property under a key. The theorems that speak of the one entry
  of a student assume it of the session they start from; it holds of every session the
  server can be in, since starting a session establishes it and every handler keeps it.
\<close>

lemma distinct_keys_session:
  "activeSession sv = Some s \<Longrightarrow> distinct_keys sv = distinct (map fst (attendance s))"
  by (simp add: distinct_keys_def)

lemma distinct_keys_no_session: "activeSession sv = None \<Longrightarrow> distinct_keys sv"
  by (simp add: distinct_keys_def)

lemma distinct_keys_send: "distinct_keys (snd (ws_send e ws p sv)) = distinct_keys sv"
  by (simp add: ws_send_eq distinct_keys_def)

lemma distinct_keys_broadcast: "distinct_keys (snd (broadcast e m sv)) = distinct_keys sv"
  by (simp add: snd_broadcast distinct_keys_def)

lemma distinct_keys_mark:
  assumes "distinct_keys sv"
  shows "distinct_keys (snd (on_ATTENDANCE_MARKED e ws d sv))"
proof (cases "activeSession sv")
  case None
  with assms show ?thesis
    by (simp add: on_ATTENDANCE_MARKED_def sendError_def distinct_keys_send)
next
  case (Some s)
  with assms have "distinct (map fst (attendance s))"
    by (simp add: distinct_keys_session)
  then have "distinct (map fst (js_set (attendance s) k v))" for k v
    by (rule distinct_js_set)
  with Some assms show ?thesis
    by (cases d)
      (simp_all add: on_ATTENDANCE_MARKED_def sendError_def distinct_keys_send
        distinct_keys_broadcast distinct_keys_session)
qed

lemma distinct_keys_done:
  assumes "distinct_keys sv"
  shows "distinct_keys (snd (on_DONE e ws sv))"
proof (cases "activeSession sv")
  case None
  with assms show ?thesis
    by (simp add: on_DONE_def sendError_def distinct_keys_send)
next
  case (Some s)
  with assms have "distinct (map fst (attendance s))"
    by (simp add: distinct_keys_session)
  then have "distinct (map fst (mark_absent rs (attendance s)))" for rs
    by (rule distinct_mark_absent)
  with Some assms \<open>distinct (map fst (attendance s))\<close> show ?thesis
    by (simp add: on_DONE_def sendError_def distinct_keys_send distinct_keys_broadcast
        distinct_keys_session distinct_keys_no_session Let_def
        split: awaited.splits option.splits insert_outcome.splits prod.splits)
qed

lemma distinct_keys_on_message:
  assumes "distinct_keys sv"
  shows "distinct_keys (snd (on_message e ws msg sv))"
proof (cases msg)
  case ParseFailure
  with assms show ?thesis by (simp add: on_message_def sendError_def distinct_keys_send)
next
  case JsonNull
  with assms show ?thesis by (simp add: on_message_def)
next
  case (Envelope ev d)
  have "distinct_keys (snd (on_TODAY_SUMMARY e ws sv))"
    using assms
    by (simp add: on_TODAY_SUMMARY_def sendError_def distinct_keys_send distinct_keys_broadcast
        split: option.splits prod.splits)
  moreover have "distinct_keys (snd (on_MY_ATTENDANCE e ws sv))"
    using assms
    by (simp add: on_MY_ATTENDANCE_def sendError_def distinct_keys_send Let_def
        split: option.splits)
  ultimately show ?thesis
    using Envelope assms distinct_keys_mark [OF assms, of e ws d] distinct_keys_done [OF assms, of e ws]
    by (simp add: on_message_def sendError_def distinct_keys_send)
qed

lemma distinct_keys_start:
  "distinct_keys sv \<Longrightarrow> distinct_keys (snd (post_attendance_start e req sv))"
  by (simp add: post_attendance_start_def distinct_keys_def
      split: sum.splits option.splits awaited.splits prod.splits)

lemma distinct_keys_run_marks: "distinct_keys sv \<Longrightarrow> distinct_keys (run_marks e ms sv)"
  by (induction ms arbitrary: sv) (simp_all add: distinct_keys_on_message)

end
